theory Spec2Isabelle
  imports Main "HOL-Library.Sublist" "HOL-Library.Char_ord" "HOL-Library.List_Lexorder"
begin

section \<open>Python strings\<close>

text \<open>
  Attribute values, tags and cell values are Python \<open>str\<close> objects. They are modelled as
  \<open>string\<close>; the model is exact for ASCII text, which is what the literals of
  \<open>appy.py\<close> are made of. Characters outside ASCII are carried along unchanged: they have
  no case mapping and are never white space here.
\<close>

definition ascii_uppercase :: string where
  "ascii_uppercase = ''ABCDEFGHIJKLMNOPQRSTUVWXYZ''"

definition ascii_lowercase :: string where
  "ascii_lowercase = ''abcdefghijklmnopqrstuvwxyz''"

definition lower_char :: "char \<Rightarrow> char" where
  "lower_char c =
     (case map_of (zip ascii_uppercase ascii_lowercase) c of Some d \<Rightarrow> d | None \<Rightarrow> c)"

definition upper_char :: "char \<Rightarrow> char" where
  "upper_char c =
     (case map_of (zip ascii_lowercase ascii_uppercase) c of Some d \<Rightarrow> d | None \<Rightarrow> c)"

definition lower :: "string \<Rightarrow> string" where
  \<comment> \<open>\<open>str.lower()\<close>\<close>
  "lower s = map lower_char s"

definition upper :: "string \<Rightarrow> string" where
  \<comment> \<open>\<open>str.upper()\<close>\<close>
  "upper s = map upper_char s"

definition isspace :: "char \<Rightarrow> bool" where
  \<comment> \<open>the ASCII characters for which \<open>str.isspace()\<close> holds: TAB, LF, VT, FF, CR,
      FS, GS, RS, US and the blank\<close>
  "isspace c = (c \<in> set [CHR 0x09, CHR 0x0A, CHR 0x0B, CHR 0x0C, CHR 0x0D,
                          CHR 0x1C, CHR 0x1D, CHR 0x1E, CHR 0x1F, CHR 0x20])"

definition strip :: "string \<Rightarrow> string" where
  \<comment> \<open>\<open>str.strip()\<close>: white space removed at both ends\<close>
  "strip s = rev (dropWhile isspace (rev (dropWhile isspace s)))"

fun contains :: "string \<Rightarrow> string \<Rightarrow> bool" where
  \<comment> \<open>\<open>contains s sub\<close> is Python's \<open>sub in s\<close> on strings\<close>
  "contains [] sub = (sub = [])"
| "contains (c # cs) sub = (prefix sub (c # cs) \<or> contains cs sub)"

section \<open>Value Normalizer\<close>

definition to_yes_no :: "string option \<Rightarrow> string" where
  "to_yes_no v =
     (case v of
        None \<Rightarrow> ''N''
      | Some s \<Rightarrow>
          (let value_str = lower (strip s) in
           if value_str \<in> set [''yes'', ''true'', ''1'', ''y''] then ''Y''
           else if value_str \<in> set [''no'', ''false'', ''0'', ''n''] then ''N''
           else if value_str = [] then ''N'' else upper value_str))"

definition is_true_value :: "string option \<Rightarrow> bool" where
  "is_true_value v =
     (case v of
        None \<Rightarrow> False
      | Some s \<Rightarrow>
          lower (strip s) \<in> set [''yes'', ''true'', ''1'', ''y'', ''dynamic'', ''created by rule''])"

section \<open>Outcomes of a call\<close>

datatype exn =
    ParseError string
  | Exception string

datatype 'a result =
    Returns 'a
  | Raises exn
  | Unmodelled

fun bind :: "'a result \<Rightarrow> ('a \<Rightarrow> 'b result) \<Rightarrow> 'b result" where
  "bind (Returns x) f = f x"
| "bind (Raises e) f = Raises e"
| "bind Unmodelled f = Unmodelled"

section \<open>Element trees\<close>

datatype element =
  Element (tag: string) (attrib: "(string \<times> string) list") (children: "element list")

definition element_get :: "element \<Rightarrow> string \<Rightarrow> string \<Rightarrow> string" where
  "element_get e key dflt = (case map_of (attrib e) key of None \<Rightarrow> dflt | Some v \<Rightarrow> v)"

fun iter :: "element \<Rightarrow> element list" where
  "iter (Element t a cs) = Element t a cs # concat (map iter cs)"

definition descendants :: "element \<Rightarrow> element list" where
  "descendants e = concat (map iter (children e))"

section \<open>ElementPath\<close>

definition hex_digit :: "nat \<Rightarrow> char" where
  "hex_digit n = ''0123456789abcdef'' ! (n mod 16)"

definition repr_char :: "char \<Rightarrow> char \<Rightarrow> string" where
  "repr_char quote c =
     (if c = quote \<or> c = CHR 0x5C then [CHR 0x5C, c]
      else if c = CHR 0x09 then [CHR 0x5C, CHR ''t'']
      else if c = CHR 0x0A then [CHR 0x5C, CHR ''n'']
      else if c = CHR 0x0D then [CHR 0x5C, CHR ''r'']
      else if (of_char c :: nat) < 32 \<or> c = CHR 0x7F
        then [CHR 0x5C, CHR ''x'', hex_digit (of_char c div 16), hex_digit (of_char c)]
      else [c])"

definition repr :: "string \<Rightarrow> string" where
  "repr s =
     (let quote = (if CHR 0x27 \<in> set s \<and> CHR 0x22 \<notin> set s then CHR 0x22 else CHR 0x27)
      in [quote] @ concat (map (repr_char quote) s) @ [quote])"

definition SyntaxError :: "string \<Rightarrow> exn" where
  "SyntaxError msg = Exception msg"

definition KeyError :: "string \<Rightarrow> exn" where
  "KeyError key = Exception (repr key)"

definition TypeError :: "string \<Rightarrow> exn" where
  "TypeError msg = Exception msg"

definition name_char :: "char \<Rightarrow> bool" where
  "name_char c = (c \<notin> set ''/[]()@!='' \<and> \<not> isspace c)"

definition group1_len :: "string \<Rightarrow> nat" where
  "group1_len s =
     (case s of
        [] \<Rightarrow> 0
      | c # t \<Rightarrow>
          if c = CHR 0x27 \<and> CHR 0x27 \<in> set t then length (takeWhile (\<lambda>x. x \<noteq> CHR 0x27) t) + 2
          else if c = CHR 0x22 \<and> CHR 0x22 \<in> set t then length (takeWhile (\<lambda>x. x \<noteq> CHR 0x22) t) + 2
          else if prefix ''::'' s then 2
          else if prefix ''//'' s then 2
          else if c = CHR ''/'' then 1
          else if prefix ''..'' s then 2
          else if prefix ''()'' s then 2
          else if prefix ''!='' s then 2
          else if c \<in> set ''/.*:[]()@='' then 1
          else 0)"

definition group2_len :: "string \<Rightarrow> nat" where
  "group2_len s =
     (case s of
        [] \<Rightarrow> 0
      | c # t \<Rightarrow>
          (let u = takeWhile (\<lambda>x. x \<noteq> CHR ''}'') t;
               r = drop (Suc (length u)) t
           in if c = CHR ''{'' \<and> u \<noteq> [] \<and> length u < length t \<and> takeWhile name_char r \<noteq> []
              then length u + 2 + length (takeWhile name_char r)
              else length (takeWhile name_char s)))"

function xpath_tokenizer_re_findall :: "string \<Rightarrow> (string \<times> string) list" where
  "xpath_tokenizer_re_findall s =
     (if s = [] then []
      else if 0 < group1_len s
        then (take (group1_len s) s, []) # xpath_tokenizer_re_findall (drop (group1_len s) s)
      else if 0 < group2_len s
        then ([], take (group2_len s) s) # xpath_tokenizer_re_findall (drop (group2_len s) s)
      else if isspace (hd s)
        then ([], []) # xpath_tokenizer_re_findall (dropWhile isspace (tl s))
      else xpath_tokenizer_re_findall (tl s))"
  by pat_completeness auto
termination
  by (relation "measure length") (auto simp: less_Suc_eq_le length_dropWhile_le intro: le_less_trans[OF length_dropWhile_le])

type_synonym token = "string \<times> string"

type_synonym namespaces = "(string \<times> string) list"

definition clark :: "string \<Rightarrow> string \<Rightarrow> string" where
  \<comment> \<open>a name in Clark notation: the URI in braces, then the local name\<close>
  "clark uri name = ''{'' @ uri @ ''}'' @ name"

definition resolve :: "namespaces \<Rightarrow> bool \<Rightarrow> token \<Rightarrow> exn + token" where
  "resolve ns parsing_attribute tok =
     (case tok of (ttype, tg) \<Rightarrow>
        if tg \<noteq> [] \<and> hd tg \<noteq> CHR ''{'' then
          if CHR '':'' \<in> set tg then
            (let pre = takeWhile (\<lambda>c. c \<noteq> CHR '':'') tg;
                 name = tl (dropWhile (\<lambda>c. c \<noteq> CHR '':'') tg)
             in case map_of ns pre of
                  None \<Rightarrow> Inl (SyntaxError (''prefix '' @ repr pre @ '' not found in prefix map''))
                | Some uri \<Rightarrow> Inr (ttype, clark uri name))
          else
            (case map_of ns [] of
               None \<Rightarrow> Inr tok
             | Some default_namespace \<Rightarrow>
                 if default_namespace \<noteq> [] \<and> \<not> parsing_attribute
                 then Inr (ttype, clark default_namespace tg) else Inr tok)
        else Inr tok)"

fun xpath_tokenizer :: "namespaces \<Rightarrow> bool \<Rightarrow> token list \<Rightarrow> (exn + token) list" where
  "xpath_tokenizer ns parsing_attribute [] = []"
| "xpath_tokenizer ns parsing_attribute (tok # rest) =
     (case resolve ns parsing_attribute tok of
        Inl e \<Rightarrow> [Inl e]
      | Inr t \<Rightarrow>
          Inr t # xpath_tokenizer ns
            (if snd tok \<noteq> [] \<and> hd (snd tok) \<noteq> CHR ''{'' then False else fst tok = ''@'') rest)"

datatype selector =
    Select_self
  | Select_star
  | Select_child string
  | Select_descendant string
  | Select_none

fun prepare :: "token \<Rightarrow> (exn + token) list \<Rightarrow> (selector \<times> (exn + token) list) result" where
  "prepare (ttype, tg) rest =
     (if ttype = [] then Returns (Select_child tg, rest)
      else if ttype = ''*'' then Returns (Select_star, rest)
      else if ttype = ''.'' then Returns (Select_self, rest)
      else if ttype = ''..'' then Unmodelled
      else if ttype = ''//'' then
        (case rest of
           [] \<Rightarrow> Returns (Select_none, [])
         | Inl e # _ \<Rightarrow> Raises e
         | Inr (ttype', tg') # rest' \<Rightarrow>
             if ttype' = ''*'' then Returns (Select_descendant ''*'', rest')
             else if ttype' = [] then Returns (Select_descendant tg', rest')
             else Raises (SyntaxError ''invalid descendant''))
      else if ttype = ''['' then Unmodelled
      else Raises (KeyError ttype))"

lemma bind_cong [fundef_cong]:
  "m = m' \<Longrightarrow> (\<And>x. m' = Returns x \<Longrightarrow> f x = f' x) \<Longrightarrow> bind m f = bind m' f'"
  by (cases m') auto

lemma prepare_length: "prepare tok rest = Returns (sel, rest') \<Longrightarrow> length rest' \<le> length rest"
  by (cases tok) (auto split: if_splits list.splits sum.splits)

function compile :: "token \<Rightarrow> (exn + token) list \<Rightarrow> selector list result" where
  "compile tok rest =
     bind (prepare tok rest) (\<lambda>(sel, rest').
       case rest' of
         [] \<Rightarrow> Returns [sel]
       | Inl e # _ \<Rightarrow> Raises e
       | Inr tok' # rest'' \<Rightarrow>
           if fst tok' = ''/'' then
             (case rest'' of
                [] \<Rightarrow> Returns [sel]
              | Inl e # _ \<Rightarrow> Raises e
              | Inr tok'' # rest''' \<Rightarrow> bind (compile tok'' rest''') (\<lambda>sels. Returns (sel # sels)))
           else bind (compile tok' rest'') (\<lambda>sels. Returns (sel # sels)))"
  by pat_completeness auto
termination
  by (relation "measure (\<lambda>(tok, rest). length rest)") (auto dest!: prepare_length)

definition is_wildcard_tag :: "string \<Rightarrow> bool" where
  "is_wildcard_tag tg = (prefix ''{*}'' tg \<or> suffix ''}*'' tg)"

definition prepare_tag :: "string \<Rightarrow> element \<Rightarrow> bool" where
  "prepare_tag tg e =
     (if tg = ''{*}*'' then True
      else if tg = ''{}*'' then tag e \<noteq> [] \<and> hd (tag e) \<noteq> CHR ''{''
      else if prefix ''{*}'' tg then tag e = drop 3 tg \<or> suffix (drop 2 tg) (tag e)
      else prefix (butlast tg) (tag e))"

definition plain_tag :: "string \<Rightarrow> string" where
  "plain_tag tg = (if prefix ''{}'' tg then drop 2 tg else tg)"

fun select :: "selector \<Rightarrow> element list \<Rightarrow> element list result" where
  "select Select_self result = Returns result"
| "select Select_star result = Returns (concat (map children result))"
| "select (Select_child tg) result =
     Returns
       (if is_wildcard_tag tg then filter (prepare_tag tg) (concat (map children result))
        else concat (map (\<lambda>elem. filter (\<lambda>e. tag e = plain_tag tg) (children elem)) result))"
| "select (Select_descendant tg) result =
     Returns
       (if is_wildcard_tag tg then filter (prepare_tag tg) (concat (map descendants result))
        else concat (map (\<lambda>elem. filter (\<lambda>e. plain_tag tg = ''*'' \<or> tag e = plain_tag tg)
                                        (descendants elem)) result))"
| "select Select_none result = Raises (TypeError ([CHR 0x27] @ ''NoneType'' @ [CHR 0x27] @ '' object is not callable''))"

fun run :: "selector list \<Rightarrow> element list \<Rightarrow> element list result" where
  "run [] result = Returns result"
| "run (sel # sels) result = bind (select sel result) (run sels)"

definition findall :: "element \<Rightarrow> string \<Rightarrow> namespaces \<Rightarrow> element list result" where
  "findall elem path ns =
     (let path = (if path \<noteq> [] \<and> last path = CHR ''/'' then path @ ''*'' else path) in
      if path \<noteq> [] \<and> hd path = CHR ''/''
      then Raises (SyntaxError ''cannot use absolute path on element'')
      else
        case xpath_tokenizer ns False (xpath_tokenizer_re_findall path) of
          [] \<Rightarrow> Returns []
        | Inl e # _ \<Rightarrow> Raises e
        | Inr tok # rest \<Rightarrow> bind (compile tok rest) (\<lambda>selector. run selector [elem]))"

section \<open>Data frames\<close>

type_synonym row = "(string \<times> string) list"

record dataframe =
  columns :: "string list"
  rows :: "row list"

fun first_occurrences :: "('a \<Rightarrow> 'k) \<Rightarrow> 'k set \<Rightarrow> 'a list \<Rightarrow> 'a list" where
  \<comment> \<open>the entries whose key is not in \<open>seen\<close> and has not occurred before\<close>
  "first_occurrences key seen [] = []"
| "first_occurrences key seen (x # xs) =
     (if key x \<in> seen then first_occurrences key seen xs
      else x # first_occurrences key (insert (key x) seen) xs)"

definition unique :: "'a list \<Rightarrow> 'a list" where
  \<comment> \<open>the distinct entries, each at its first position\<close>
  "unique xs = first_occurrences (\<lambda>x. x) {} xs"

definition DataFrame :: "row list \<Rightarrow> dataframe" where
  \<comment> \<open>\<open>pd.DataFrame(records)\<close>, and \<open>pd.DataFrame()\<close> for no records: the columns are the
      keys of the records in the order they first appear\<close>
  "DataFrame records = \<lparr>columns = unique (concat (map (map fst) records)), rows = records\<rparr>"

definition DataFrame_columns :: "string list \<Rightarrow> dataframe" where
  \<comment> \<open>\<open>pd.DataFrame(columns=cols)\<close>\<close>
  "DataFrame_columns cols = \<lparr>columns = cols, rows = []\<rparr>"

definition df_empty :: "dataframe \<Rightarrow> bool" where
  \<comment> \<open>\<open>df.empty\<close>: some axis has length 0\<close>
  "df_empty df = (columns df = [] \<or> rows df = [])"

definition df_getitem :: "dataframe \<Rightarrow> string list \<Rightarrow> dataframe" where
  \<comment> \<open>\<open>df[cols]\<close>, for \<open>cols\<close> among the columns of \<open>df\<close>\<close>
  "df_getitem df cols =
     \<lparr>columns = cols,
      rows = map (\<lambda>r. concat (map (\<lambda>c. case map_of r c of None \<Rightarrow> [] | Some v \<Rightarrow> [(c, v)]) cols))
                 (rows df)\<rparr>"


section \<open>The extraction core of appy.py\<close>

definition MONITORING_COLUMNS :: "string list" where
  "MONITORING_COLUMNS = [''SDV'', ''Medical Review'', ''Data Review'']"

definition IGNORED_SITE :: string where
  "IGNORED_SITE = ''REDCap Cloud Demo''"

definition default_odm_ns :: string where
  "default_odm_ns = ''http://www.cdisc.org/ns/odm/v1.3''"

definition default_redcap_ns :: string where
  "default_redcap_ns = ''https://www.redcapcloud.com/ns/odm_ext_v132/v10''"

definition dict_get :: "('k \<times> 'v) list \<Rightarrow> 'k \<Rightarrow> 'v \<Rightarrow> 'v" where
  \<comment> \<open>\<open>d.get(key, default)\<close>\<close>
  "dict_get d key dflt = (case map_of d key of None \<Rightarrow> dflt | Some v \<Rightarrow> v)"

definition truthy :: "string option \<Rightarrow> bool" where
  \<comment> \<open>the truth value of \<open>d.get(key)\<close>: neither \<open>None\<close> nor the empty string\<close>
  "truthy v = (case v of None \<Rightarrow> False | Some s \<Rightarrow> s \<noteq> [])"

definition get_namespace_map :: "element \<Rightarrow> namespaces" where
  "get_namespace_map root =
     (let odm_ns = default_odm_ns;
          redcap_ns = default_redcap_ns;
          odm_ns =
            (if CHR ''}'' \<in> set (tag root) then
               (let ns_uri = tl (takeWhile (\<lambda>c. c \<noteq> CHR ''}'') (tag root))
                in if contains (lower ns_uri) ''odm'' then ns_uri else odm_ns)
             else odm_ns);
          (odm_ns, redcap_ns) =
            fold (\<lambda>(attr, val) (odm_ns, redcap_ns).
                    if contains attr ''xmlns'' then
                      (if contains (lower val) ''odm'' \<and> contains (lower val) ''cdisc''
                       then val else odm_ns,
                       if contains (lower val) ''redcap'' then val else redcap_ns)
                    else (odm_ns, redcap_ns))
                 (attrib root) (odm_ns, redcap_ns)
      in [(''odm'', odm_ns), (''REDCap'', redcap_ns)])"

definition find_elements_once :: "element \<Rightarrow> string \<Rightarrow> namespaces \<Rightarrow> element list result" where
  "find_elements_once root tag_name ns =
     (let ns_uri = dict_get ns ''odm'' default_odm_ns in
      bind (findall root (''.//{'' @ ns_uri @ ''}'' @ tag_name) []) (\<lambda>elements.
        if elements \<noteq> [] then Returns elements
        else bind (findall root (''.//odm:'' @ tag_name) ns) (\<lambda>elements.
          if elements \<noteq> [] then Returns elements
          else findall root (''.//'' @ tag_name) [])))"

definition get_redcap_attr :: "element \<Rightarrow> string \<Rightarrow> namespaces \<Rightarrow> string" where
  "get_redcap_attr element attr_name ns =
     (let ns_uri = dict_get ns ''REDCap'' default_redcap_ns;
          val = element_get element (''{'' @ ns_uri @ ''}'' @ attr_name) []
      in if val \<noteq> [] then val else element_get element attr_name [])"

record site_info =
  oid :: string
  forms :: "string set"

type_synonym site_forms_map = "(string \<times> site_info) list"

definition add_values :: "string \<Rightarrow> element list \<Rightarrow> string set \<Rightarrow> string set" where
  \<comment> \<open>the loops of lines 83-86 and 93-96: every non-empty value of the attribute is added\<close>
  "add_values key elems form_oids =
     fold (\<lambda>e form_oids. let form_oid = element_get e key [] in
                            if form_oid \<noteq> [] then insert form_oid form_oids else form_oids)
          elems form_oids"

definition metadata_version_forms :: "element \<Rightarrow> namespaces \<Rightarrow> string set result" where
  \<comment> \<open>lines 77-96, for one metadata-version element\<close>
  "metadata_version_forms mv ns =
     bind (findall mv (''.//{'' @ dict_get ns ''odm'' default_odm_ns @ ''}FormDef'') []) (\<lambda>form_defs.
     bind (if form_defs = [] then findall mv ''.//odm:FormDef'' ns else Returns form_defs) (\<lambda>form_defs.
     bind (if form_defs = [] then findall mv ''.//FormDef'' [] else Returns form_defs) (\<lambda>form_defs.
     let form_oids = add_values ''OID'' form_defs {} in
     bind (findall mv (''.//{'' @ dict_get ns ''odm'' default_odm_ns @ ''}FormRef'') []) (\<lambda>form_refs.
     bind (if form_refs = [] then findall mv ''.//odm:FormRef'' ns else Returns form_refs) (\<lambda>form_refs.
     bind (if form_refs = [] then findall mv ''.//FormRef'' [] else Returns form_refs) (\<lambda>form_refs.
       Returns (add_values ''FormOID'' form_refs form_oids)))))))"

definition site_name_of :: "element \<Rightarrow> string" where
  \<comment> \<open>lines 70-73: the \<open>Name\<close> attribute, or the \<open>OID\<close> when the name is empty\<close>
  "site_name_of mv =
     (let mv_oid = element_get mv ''OID'' [];
          site_name = element_get mv ''Name'' []
      in if site_name = [] then mv_oid else site_name)"

definition add_forms :: "string set \<Rightarrow> site_info \<Rightarrow> site_info" where
  \<comment> \<open>\<open>info['forms'].update(form_oids)\<close>\<close>
  "add_forms form_oids info = info\<lparr>forms := forms info \<union> form_oids\<rparr>"

definition extend_site :: "string \<Rightarrow> string set \<Rightarrow> string \<times> site_info \<Rightarrow> string \<times> site_info" where
  \<comment> \<open>line 99, seen from one entry of the dictionary\<close>
  "extend_site site_name form_oids entry =
     (if fst entry = site_name then (fst entry, add_forms form_oids (snd entry)) else entry)"

definition update_site :: "site_forms_map \<Rightarrow> string \<Rightarrow> string \<Rightarrow> string set \<Rightarrow> site_forms_map" where
  \<comment> \<open>lines 98-101\<close>
  "update_site m site_name mv_oid form_oids =
     (if site_name \<in> fst ` set m
      then map (extend_site site_name form_oids) m
      else m @ [(site_name, \<lparr>oid = mv_oid, forms = form_oids\<rparr>)])"

fun metadata_versions_loop :: "namespaces \<Rightarrow> element list \<Rightarrow> site_forms_map \<Rightarrow> site_forms_map result" where
  "metadata_versions_loop ns [] m = Returns m"
| "metadata_versions_loop ns (mv # mvs) m =
     (if site_name_of mv = IGNORED_SITE then metadata_versions_loop ns mvs m
      else bind (metadata_version_forms mv ns) (\<lambda>form_oids.
             metadata_versions_loop ns mvs
               (update_site m (site_name_of mv) (element_get mv ''OID'' []) form_oids)))"

definition extract_metadata_versions :: "element \<Rightarrow> namespaces \<Rightarrow> site_forms_map result" where
  "extract_metadata_versions root ns =
     bind (find_elements_once root ''MetaDataVersion'' ns) (\<lambda>metadata_versions.
       if metadata_versions = [] then Returns []
       else metadata_versions_loop ns metadata_versions [])"

definition event_info :: "element \<Rightarrow> namespaces \<Rightarrow> row" where
  \<comment> \<open>lines 117-127\<close>
  "event_info event ns =
     (let dynamic_event = get_redcap_attr event ''DynamicEvent'' ns;
          created_by_rule = get_redcap_attr event ''CreatedByRule'' ns;
          dynamic_created_by_rule =
            (if is_true_value (Some dynamic_event) \<or> is_true_value (Some created_by_rule)
             then ''Y'' else ''N'')
      in [(''Unique Event Name'', get_redcap_attr event ''UniqueEventName'' ns),
          (''Name'', element_get event ''Name'' []),
          (''Manual Scheduling'', to_yes_no (Some (get_redcap_attr event ''AllowManualSchedule'' ns))),
          (''Repeating'', to_yes_no (Some (element_get event ''Repeating'' []))),
          (''Dynamic/Created by Rule'', dynamic_created_by_rule)])"

fun event_definitions_loop :: "namespaces \<Rightarrow> element list \<Rightarrow> string set \<Rightarrow> row list \<Rightarrow> row list" where
  "event_definitions_loop ns [] seen_oids event_definitions = event_definitions"
| "event_definitions_loop ns (event # events) seen_oids event_definitions =
     (let oid = element_get event ''OID'' [] in
      if oid = [] \<or> oid \<in> seen_oids
      then event_definitions_loop ns events seen_oids event_definitions
      else event_definitions_loop ns events (insert oid seen_oids)
             (event_definitions @ [event_info event ns]))"

definition extract_event_definitions :: "element \<Rightarrow> namespaces \<Rightarrow> dataframe result" where
  "extract_event_definitions root ns =
     bind (find_elements_once root ''StudyEventDef'' ns) (\<lambda>study_event_defs.
       if study_event_defs = [] then Returns (DataFrame [])
       else Returns (DataFrame (event_definitions_loop ns study_event_defs {} [])))"

fun form_names_loop ::
  "element list \<Rightarrow> string set \<Rightarrow> (string \<rightharpoonup> string) \<Rightarrow> (string \<rightharpoonup> string)" where
  "form_names_loop [] seen_form_oids form_oid_to_name = form_oid_to_name"
| "form_names_loop (form # form_defs) seen_form_oids form_oid_to_name =
     (let oid = element_get form ''OID'' [] in
      if oid \<noteq> [] \<and> oid \<notin> seen_form_oids
      then form_names_loop form_defs (insert oid seen_form_oids)
             (form_oid_to_name(oid \<mapsto> element_get form ''Name'' []))
      else form_names_loop form_defs seen_form_oids form_oid_to_name)"

definition event_form_refs :: "element \<Rightarrow> namespaces \<Rightarrow> element list result" where
  \<comment> \<open>lines 155-164\<close>
  "event_form_refs event ns =
     (let redcap_ns = map_of ns ''REDCap'' in
      bind (if truthy (map_of ns ''odm'') then findall event ''odm:FormRef'' ns else Returns [])
        (\<lambda>form_refs.
      bind (if form_refs = [] \<and> truthy redcap_ns then findall event ''FormRef'' [] else Returns form_refs)
        (\<lambda>form_refs.
      Returns
        (if form_refs = []
         then filter (\<lambda>child. contains (tag child) ''FormRef'' \<or> suffix ''FormRef'' (tag child))
                (children event)
         else form_refs))))"

definition form_sites_of :: "site_forms_map \<Rightarrow> string \<Rightarrow> string set" where
  \<comment> \<open>lines 173-177\<close>
  "form_sites_of m form_oid =
     (if m \<noteq> []
      then fold (\<lambda>(site_name, info) form_sites.
                   if form_oid \<in> forms info then insert site_name form_sites else form_sites) m {}
      else {})"

fun join :: "string \<Rightarrow> string list \<Rightarrow> string" where
  \<comment> \<open>\<open>sep.join(xs)\<close>\<close>
  "join sep [] = []"
| "join sep [x] = x"
| "join sep (x # y # ys) = x @ sep @ join sep (y # ys)"

definition site_display_of :: "string set \<Rightarrow> string set \<Rightarrow> string" where
  \<comment> \<open>lines 179-184\<close>
  "site_display_of form_sites all_valid_sites =
     (if form_sites = {} then ''Unknown Site''
      else if form_sites = all_valid_sites then ''All sites''
      else join '', '' (sorted_list_of_set form_sites))"

definition monitoring_elems :: "element \<Rightarrow> namespaces \<Rightarrow> string \<Rightarrow> element list result" where
  \<comment> \<open>lines 188-194: the monitoring sub-elements found under a form reference\<close>
  "monitoring_elems form_ref ns redcap_ns =
     bind (findall form_ref (''.//{'' @ redcap_ns @ ''}Monitoring'') []) (\<lambda>monitoring_elems.
     bind (if monitoring_elems = [] then findall form_ref ''.//REDCap:Monitoring'' ns
           else Returns monitoring_elems) (\<lambda>monitoring_elems.
       Returns
         (if monitoring_elems = []
          then filter (\<lambda>child. contains (tag child) ''Monitoring'') (children form_ref)
          else monitoring_elems)))"

definition monitoring_types :: "element \<Rightarrow> namespaces \<Rightarrow> string set result" where
  \<comment> \<open>lines 186-198\<close>
  "monitoring_types form_ref ns =
     (case map_of ns ''REDCap'' of
        None \<Rightarrow> Returns {}
      | Some redcap_ns \<Rightarrow>
          if redcap_ns = [] then Returns {}
          else bind (monitoring_elems form_ref ns redcap_ns) (\<lambda>monitoring_elems.
                 Returns (add_values ''Type'' monitoring_elems {})))"

record extraction_context =
  namespaces_of :: namespaces
  site_forms_map_of :: site_forms_map
  all_valid_sites_of :: "string set"
  form_oid_to_name_of :: "string \<rightharpoonup> string"

definition instrument_record :: "extraction_context \<Rightarrow> element \<Rightarrow> element \<Rightarrow> row result" where
  \<comment> \<open>lines 173-210, for a form reference that is emitted\<close>
  "instrument_record ctx event form_ref =
     (let ns = namespaces_of ctx;
          form_oid = element_get form_ref ''FormOID'' [];
          form_sites = form_sites_of (site_forms_map_of ctx) form_oid;
          site_display = site_display_of form_sites (all_valid_sites_of ctx)
      in bind (monitoring_types form_ref ns) (\<lambda>monitoring_types_present.
           Returns
             ([(''Event'', element_get event ''Name'' []),
               (''Instrument Name'',
                  (case form_oid_to_name_of ctx form_oid of None \<Rightarrow> [] | Some name \<Rightarrow> name)),
               (''Version'', get_redcap_attr form_ref ''DefaultVersion'' ns),
               (''Site'', site_display),
               (''Repeating'', to_yes_no (Some (get_redcap_attr form_ref ''Repeating'' ns))),
               (''Dynamic'', to_yes_no (Some (get_redcap_attr form_ref ''DynamicForm'' ns))),
               (''Required'', to_yes_no (Some (element_get form_ref ''Mandatory'' [])))]
              @ map (\<lambda>col. (col, if col \<in> monitoring_types_present then ''Y'' else ''N''))
                    MONITORING_COLUMNS)))"

type_synonym instruments_state = "(string \<times> string) set \<times> row list"

fun form_refs_loop ::
  "extraction_context \<Rightarrow> element \<Rightarrow> element list \<Rightarrow> instruments_state \<Rightarrow> instruments_state result" where
  "form_refs_loop ctx event [] st = Returns st"
| "form_refs_loop ctx event (form_ref # form_refs) (seen_event_form_combos, event_instruments) =
     (let form_oid = element_get form_ref ''FormOID'' [];
          combo_key = (element_get event ''OID'' [], form_oid)
      in if form_oid = [] \<or> combo_key \<in> seen_event_form_combos
         then form_refs_loop ctx event form_refs (seen_event_form_combos, event_instruments)
         else bind (instrument_record ctx event form_ref) (\<lambda>record.
                form_refs_loop ctx event form_refs
                  (insert combo_key seen_event_form_combos, event_instruments @ [record])))"

fun events_loop ::
  "extraction_context \<Rightarrow> element list \<Rightarrow> instruments_state \<Rightarrow> instruments_state result" where
  "events_loop ctx [] st = Returns st"
| "events_loop ctx (event # events) st =
     bind (event_form_refs event (namespaces_of ctx)) (\<lambda>form_refs.
     bind (form_refs_loop ctx event form_refs st) (\<lambda>st.
       events_loop ctx events st))"

definition instrument_columns :: "string list" where
  "instrument_columns =
     [''Event'', ''Instrument Name'', ''Version'', ''Site'', ''Repeating'', ''Dynamic'', ''Required'']
     @ MONITORING_COLUMNS"

definition instruments_context ::
  "namespaces \<Rightarrow> site_forms_map \<Rightarrow> element list \<Rightarrow> extraction_context" where
  \<comment> \<open>lines 138-146: the known sites and the names of the forms\<close>
  "instruments_context ns site_forms_map form_defs =
     \<lparr>namespaces_of = ns,
      site_forms_map_of = site_forms_map,
      all_valid_sites_of = fst ` set site_forms_map,
      form_oid_to_name_of = form_names_loop form_defs {} Map.empty\<rparr>"

definition extract_event_instruments :: "element \<Rightarrow> namespaces \<Rightarrow> dataframe result" where
  "extract_event_instruments root ns =
     bind (find_elements_once root ''StudyEventDef'' ns) (\<lambda>study_event_defs.
     bind (find_elements_once root ''FormDef'' ns) (\<lambda>form_defs.
       if study_event_defs = [] then Returns (DataFrame [])
       else
         bind (extract_metadata_versions root ns) (\<lambda>site_forms_map.
         bind (events_loop (instruments_context ns site_forms_map form_defs) study_event_defs ({}, []))
           (\<lambda>(seen_event_form_combos, event_instruments).
              let df = DataFrame event_instruments in
              if df_empty df then Returns (DataFrame_columns instrument_columns)
              else Returns (df_getitem df (filter (\<lambda>c. c \<in> set (columns df)) instrument_columns))))))"


section \<open>Vocabulary of the statements\<close>

text \<open>
  The definitions of this section are not part of \<open>appy.py\<close>: they name the notions that
  the lemmas and theorems below are stated with, and the concrete documents they are
  evaluated at.
\<close>

definition letters :: "string \<Rightarrow> bool" where
  "letters T = (T \<noteq> [] \<and> set T \<subseteq> set (ascii_uppercase @ ascii_lowercase))"








definition has_oid :: "element \<Rightarrow> bool" where
  "has_oid e = (element_get e ''OID'' [] \<noteq> [])"

definition oid_of :: "element \<Rightarrow> string" where
  "oid_of e = element_get e ''OID'' []"

definition form_oid_of :: "element \<Rightarrow> string" where
  "form_oid_of form_ref = element_get form_ref ''FormOID'' []"

definition combo_key :: "element \<times> element \<Rightarrow> string \<times> string" where
  "combo_key p = (oid_of (fst p), form_oid_of (snd p))"




definition empty_root :: element where
  "empty_root = Element ''ODM'' [] []"

definition repeated_root :: element where
  "repeated_root =
     Element ''ODM'' []
       [Element ''Study'' []
          [Element ''MetaDataVersion'' [(''OID'', ''MV1''), (''Name'', ''Site A'')]
             [Element ''StudyEventDef'' [(''OID'', ''E1''), (''Name'', ''Visit 1'')]
                [Element ''FormRef'' [(''FormOID'', ''F1''), (''Mandatory'', ''Yes'')] [],
                 Element ''FormRef'' [(''FormOID'', ''F1''), (''Mandatory'', ''No'')] [],
                 Element ''FormRef'' [(''Mandatory'', ''Yes'')] []],
              Element ''StudyEventDef'' [(''Name'', ''No key'')] [],
              Element ''StudyEventDef'' [(''OID'', ''''), (''Name'', ''Empty key'')] [],
              Element ''StudyEventDef'' [(''OID'', ''E1''), (''Name'', ''Visit 1 again'')]
                [Element ''FormRef'' [(''FormOID'', ''F1''), (''Mandatory'', ''No'')] []],
              Element ''FormDef'' [(''OID'', ''F1''), (''Name'', ''Form One'')] []]]]"

definition default_namespaces :: namespaces where
  "default_namespaces = [(''odm'', default_odm_ns), (''REDCap'', default_redcap_ns)]"

definition repeated_events :: "element list" where
  "repeated_events =
     [Element ''StudyEventDef'' [(''OID'', ''E1''), (''Name'', ''Visit 1'')]
        [Element ''FormRef'' [(''FormOID'', ''F1''), (''Mandatory'', ''Yes'')] [],
         Element ''FormRef'' [(''FormOID'', ''F1''), (''Mandatory'', ''No'')] [],
         Element ''FormRef'' [(''Mandatory'', ''Yes'')] []],
      Element ''StudyEventDef'' [(''Name'', ''No key'')] [],
      Element ''StudyEventDef'' [(''OID'', ''''), (''Name'', ''Empty key'')] [],
      Element ''StudyEventDef'' [(''OID'', ''E1''), (''Name'', ''Visit 1 again'')]
        [Element ''FormRef'' [(''FormOID'', ''F1''), (''Mandatory'', ''No'')] []]]"

definition repeated_event_table :: dataframe where
  "repeated_event_table =
     \<lparr>columns = [''Unique Event Name'', ''Name'', ''Manual Scheduling'', ''Repeating'',
                 ''Dynamic/Created by Rule''],
      rows = [[(''Unique Event Name'', []), (''Name'', ''Visit 1''), (''Manual Scheduling'', ''N''),
               (''Repeating'', ''N''), (''Dynamic/Created by Rule'', ''N'')]]\<rparr>"

definition repeated_instrument_table :: dataframe where
  "repeated_instrument_table =
     \<lparr>columns = [''Event'', ''Instrument Name'', ''Version'', ''Site'', ''Repeating'', ''Dynamic'',
                 ''Required'', ''SDV'', ''Medical Review'', ''Data Review''],
      rows = [[(''Event'', ''Visit 1''), (''Instrument Name'', ''Form One''), (''Version'', []),
               (''Site'', ''All sites''), (''Repeating'', ''N''), (''Dynamic'', ''N''),
               (''Required'', ''Y''), (''SDV'', ''N''), (''Medical Review'', ''N''),
               (''Data Review'', ''N'')]]\<rparr>"

text \<open>The form set that a site map holds for a name (empty when the name is not a key).\<close>

definition site_forms :: "site_forms_map \<Rightarrow> string \<Rightarrow> string set" where
  "site_forms m name = (case map_of m name of None \<Rightarrow> {} | Some info \<Rightarrow> forms info)"

text \<open>The union of the form sets collected from the metadata versions of one display name.\<close>

definition collected_forms :: "namespaces \<Rightarrow> element list \<Rightarrow> string \<Rightarrow> string set" where
  "collected_forms ns mvs name =
     \<Union> {S. \<exists>mv\<in>set mvs. site_name_of mv = name \<and> name \<noteq> IGNORED_SITE \<and>
                         metadata_version_forms mv ns = Returns S}"

text \<open>
  A document with two metadata versions of the display name \<open>Site A\<close> and one of the ignored
  name, its metadata versions, and the site map built from it.
\<close>

definition shared_name_versions :: "element list" where
  "shared_name_versions =
     [Element ''MetaDataVersion'' [(''OID'', ''MV1''), (''Name'', ''Site A'')]
        [Element ''FormDef'' [(''OID'', ''F1'')] []],
      Element ''MetaDataVersion'' [(''OID'', ''MV2''), (''Name'', ''Site A'')]
        [Element ''FormDef'' [(''OID'', ''F2'')] [],
         Element ''FormRef'' [(''FormOID'', ''F3'')] []],
      Element ''MetaDataVersion'' [(''OID'', ''MV3''), (''Name'', ''REDCap Cloud Demo'')]
        [Element ''FormDef'' [(''OID'', ''F1'')] []]]"

definition shared_name_root :: element where
  "shared_name_root = Element ''ODM'' [] shared_name_versions"

definition shared_name_map :: site_forms_map where
  "shared_name_map = [(''Site A'', \<lparr>oid = ''MV1'', forms = {''F1'', ''F2'', ''F3''}\<rparr>)]"

section \<open>Facts about the string functions\<close>





section \<open>The Value Normalizer, verified\<close>



section \<open>Facts about ElementPath\<close>

declare xpath_tokenizer_re_findall.simps [simp del]

declare compile.simps [simp del]







lemma letter_facts:
  assumes "c \<in> set (ascii_uppercase @ ascii_lowercase)"
  shows "name_char c" and "c \<notin> set ''.*:{}''" and "c \<noteq> CHR 0x27" and "c \<noteq> CHR 0x22"
  using assms by (auto simp: name_char_def isspace_def ascii_uppercase_def ascii_lowercase_def)






lemma letters_last:
  assumes "letters T"
  shows "last T \<in> set (ascii_uppercase @ ascii_lowercase)"
proof -
  have "T \<noteq> []" using assms by (simp add: letters_def)
  then have "last T \<in> set T" by simp
  then show ?thesis using assms unfolding letters_def by blast
qed


lemma clark_not_suffix_star: "letters T \<Longrightarrow> \<not> suffix ''}*'' (clark uri T)"
proof
  assume T: "letters T" and "suffix ''}*'' (clark uri T)"
  then obtain zs where "clark uri T = zs @ ''}*''"
    by (auto simp: suffix_def)
  then have "last (clark uri T) = CHR ''*''"
    by simp
  moreover have "last (clark uri T) = last T"
    using T by (simp add: clark_def letters_def)
  ultimately show False
    using letters_last[OF T] letter_facts(2) by fastforce
qed






















section \<open>Searches that return\<close>

lemma bind_Returns_iff:
  "bind m f = Returns y \<longleftrightarrow> (\<exists>x. m = Returns x \<and> f x = Returns y)"
  by (cases m) auto
















section \<open>The entry point\<close>






section \<open>The loops of the extractors\<close>

lemma first_occurrences_subset: "set (first_occurrences key seen xs) \<subseteq> set xs"
  by (induction xs arbitrary: seen) auto

lemma first_occurrences_keys:
  "key ` set (first_occurrences key seen xs) = key ` set xs - seen"
  by (induction xs arbitrary: seen) auto






lemma first_occurrences_filter:
  "k \<in> seen \<Longrightarrow>
   first_occurrences key seen (filter (\<lambda>x. key x \<noteq> k) xs) = first_occurrences key seen xs"
  by (induction xs arbitrary: seen) auto


lemma event_definitions_loop_eq:
  "event_definitions_loop ns events seen acc
   = acc @ map (\<lambda>e. event_info e ns) (first_occurrences oid_of seen (filter has_oid events))"
  by (induction events arbitrary: seen acc) (auto simp: Let_def has_oid_def oid_of_def)

lemma extract_event_definitions_rows:
  assumes "extract_event_definitions root ns = Returns df"
    and "find_elements_once root ''StudyEventDef'' ns = Returns events"
  shows "rows df = map (\<lambda>e. event_info e ns) (first_occurrences oid_of {} (filter has_oid events))"
  using assms
  by (auto simp: extract_event_definitions_def DataFrame_def event_definitions_loop_eq split: if_splits)


lemma first_occurrences_seen_emitted:
  "first_occurrences key (seen \<union> key ` set xs) ys
   = first_occurrences key (seen \<union> key ` set (first_occurrences key seen xs)) ys"
proof -
  have "seen \<union> key ` set (first_occurrences key seen xs) = seen \<union> key ` set xs"
    using first_occurrences_keys[of key seen xs] by auto
  then show ?thesis by simp
qed









section \<open>Rows and keys\<close>






lemma repeated_root_facts:
  "get_namespace_map repeated_root = default_namespaces"
  "find_elements_once repeated_root ''StudyEventDef'' default_namespaces = Returns repeated_events"
  "extract_event_definitions repeated_root default_namespaces = Returns repeated_event_table"
  "extract_event_instruments repeated_root default_namespaces = Returns repeated_instrument_table"
  by code_simp+


text \<open>
  C10. Every row of the Event Definitions table is the row of a found \<open>StudyEventDef\<close> element
  whose \<open>OID\<close> attribute is present and not empty, and the table is the one computed from those
  elements alone: an element without \<open>OID\<close>, or with an empty one, contributes no row, whatever
  its other attributes are.
\<close>

theorem event_without_oid_has_no_row:
  assumes "extract_event_definitions root ns = Returns df"
    and "find_elements_once root ''StudyEventDef'' ns = Returns events"
  shows "(\<exists>es. rows df = map (\<lambda>e. event_info e ns) es \<and>
               set es \<subseteq> {e \<in> set events. map_of (attrib e) ''OID'' \<noteq> None \<and>
                                          map_of (attrib e) ''OID'' \<noteq> Some []}) \<and>
         rows df = event_definitions_loop ns
                     (filter (\<lambda>e. map_of (attrib e) ''OID'' \<noteq> None \<and>
                                   map_of (attrib e) ''OID'' \<noteq> Some []) events) {} []"
proof -
  have has: "has_oid = (\<lambda>e. map_of (attrib e) ''OID'' \<noteq> None \<and> map_of (attrib e) ''OID'' \<noteq> Some [])"
    by (auto simp: has_oid_def element_get_def split: option.splits)
  let ?es = "first_occurrences oid_of {} (filter has_oid events)"
  have rows: "rows df = map (\<lambda>e. event_info e ns) ?es"
    by (rule extract_event_definitions_rows[OF assms])
  have "set ?es \<subseteq> {e \<in> set events. has_oid e}"
    using first_occurrences_subset[of oid_of "{}" "filter has_oid events"] by auto
  then have "\<exists>es. rows df = map (\<lambda>e. event_info e ns) es \<and> set es \<subseteq> {e \<in> set events. has_oid e}"
    using rows by blast
  moreover have "rows df = event_definitions_loop ns (filter has_oid events) {} []"
    using rows by (simp add: event_definitions_loop_eq)
  ultimately show ?thesis
    unfolding has by blast
qed

text \<open>Two of the four events of \<open>repeated_root\<close> have no usable \<open>OID\<close>; the table has one row.\<close>

theorem event_without_oid_has_no_row_witness:
  "rows repeated_event_table
     = event_definitions_loop default_namespaces
         (filter (\<lambda>e. map_of (attrib e) ''OID'' \<noteq> None \<and> map_of (attrib e) ''OID'' \<noteq> Some [])
            repeated_events) {} [] \<and>
   length repeated_events = 4 \<and>
   length (rows repeated_event_table) = 1"
proof -
  have sizes: "length repeated_events = 4 \<and> length (rows repeated_event_table) = 1"
    by (simp add: repeated_events_def repeated_event_table_def)
  show ?thesis
    using event_without_oid_has_no_row[OF repeated_root_facts(3) repeated_root_facts(2)] sizes
    by blast
qed

text \<open>
  C2 at the document \<open><ODM/>\<close>, which has no event definition: the early return of line 135
  gives a frame with no columns at all, where line 216 would have given the ten columns.
\<close>

theorem instruments_table_without_events:
  "find_elements_once empty_root ''StudyEventDef'' (get_namespace_map empty_root) = Returns [] \<and>
   extract_event_instruments empty_root (get_namespace_map empty_root)
     = Returns \<lparr>columns = [], rows = []\<rparr>"
  by code_simp

section \<open>The site map\<close>

lemma add_values_eq:
  "add_values key elems S = S \<union> {v. v \<noteq> [] \<and> (\<exists>e\<in>set elems. element_get e key [] = v)}"
proof -
  have "fold (\<lambda>e form_oids. let form_oid = element_get e key [] in
                if form_oid \<noteq> [] then insert form_oid form_oids else form_oids) elems S
        = S \<union> {v. v \<noteq> [] \<and> (\<exists>e\<in>set elems. element_get e key [] = v)}"
    by (induction elems arbitrary: S) (auto simp: Let_def)
  then show ?thesis
    by (simp add: add_values_def)
qed

lemma forms_add_forms: "forms (add_forms S info) = forms info \<union> S"
  by (simp add: add_forms_def)

lemma fst_extend_site: "fst (extend_site name S entry) = fst entry"
  by (simp add: extend_site_def)

lemma forms_extend_site:
  "forms (snd (extend_site name S entry))
   = (if fst entry = name then forms (snd entry) \<union> S else forms (snd entry))"
  by (simp add: extend_site_def forms_add_forms)

lemma map_fst_extend_site: "map fst (map (extend_site name S) m) = map fst m"
  by (induction m) (simp_all add: fst_extend_site)

lemma update_site_keys: "fst ` set (update_site m name mv_oid S) = insert name (fst ` set m)"
proof (cases "name \<in> fst ` set m")
  case True
  have "fst ` set (map (extend_site name S) m) = set (map fst (map (extend_site name S) m))"
    by (simp only: set_map)
  also have "\<dots> = fst ` set m"
    by (simp only: map_fst_extend_site set_map)
  finally show ?thesis
    using True by (simp add: update_site_def insert_absorb)
next
  case False
  then show ?thesis
    by (simp add: update_site_def)
qed

lemma update_site_distinct:
  assumes "distinct (map fst m)"
  shows "distinct (map fst (update_site m name mv_oid S))"
proof (cases "name \<in> fst ` set m")
  case True
  then have "map fst (update_site m name mv_oid S) = map fst m"
    by (simp only: update_site_def if_True map_fst_extend_site)
  then show ?thesis
    using assms by simp
next
  case False
  then show ?thesis
    using assms by (simp add: update_site_def)
qed

lemma site_forms_Nil: "site_forms [] k = {}"
  by (simp add: site_forms_def)

lemma site_forms_Cons:
  "site_forms (entry # m) k = (if k = fst entry then forms (snd entry) else site_forms m k)"
  by (cases entry) (simp add: site_forms_def)

lemma site_forms_absent: "k \<notin> fst ` set m \<Longrightarrow> site_forms m k = {}"
  by (simp add: site_forms_def map_of_eq_None_iff[THEN iffD2])

lemma site_forms_extend_other:
  "k \<noteq> name \<Longrightarrow> site_forms (map (extend_site name S) m) k = site_forms m k"
  by (induction m) (simp_all add: site_forms_Nil site_forms_Cons fst_extend_site forms_extend_site)

lemma site_forms_extend_same:
  "name \<in> fst ` set m \<Longrightarrow> site_forms (map (extend_site name S) m) name = site_forms m name \<union> S"
proof (induction m)
  case Nil
  then show ?case by simp
next
  case (Cons entry m)
  show ?case
  proof (cases "fst entry = name")
    case True
    then show ?thesis
      by (simp add: site_forms_Cons fst_extend_site forms_extend_site)
  next
    case False
    then have "name \<in> fst ` set m"
      using Cons.prems by auto
    from Cons.IH[OF this] show ?thesis
      using False by (simp add: site_forms_Cons fst_extend_site)
  qed
qed

lemma site_forms_append_new:
  assumes "name \<notin> fst ` set m"
  shows "site_forms (m @ [(name, \<lparr>oid = mv_oid, forms = S\<rparr>)]) k
         = (if k = name then S else site_forms m k)"
  using assms
proof (induction m arbitrary: k)
  case Nil
  then show ?case by (simp add: site_forms_Cons site_forms_Nil)
next
  case (Cons entry m)
  then have "name \<noteq> fst entry" and "name \<notin> fst ` set m"
    by auto
  with Cons.IH show ?case
    by (simp add: site_forms_Cons)
qed

lemma site_forms_update:
  "site_forms (update_site m name mv_oid S) k
   = (if k = name then site_forms m k \<union> S else site_forms m k)"
proof (cases "name \<in> fst ` set m")
  case True
  then show ?thesis
    by (simp add: site_forms_extend_same site_forms_extend_other update_site_def)
next
  case False
  then show ?thesis
    by (simp add: site_forms_append_new site_forms_absent update_site_def)
qed

lemma collected_forms_Nil: "collected_forms ns [] name = {}"
  by (simp add: collected_forms_def)

lemma collected_forms_ignored:
  "site_name_of mv = IGNORED_SITE \<Longrightarrow> collected_forms ns (mv # mvs) name = collected_forms ns mvs name"
  by (auto simp: collected_forms_def)

lemma collected_forms_Cons:
  assumes "site_name_of mv \<noteq> IGNORED_SITE" and "metadata_version_forms mv ns = Returns S"
  shows "collected_forms ns (mv # mvs) name
         = (if name = site_name_of mv then S \<union> collected_forms ns mvs name
            else collected_forms ns mvs name)"
  using assms by (auto simp: collected_forms_def)

lemma metadata_versions_loop_invariant:
  assumes "metadata_versions_loop ns mvs m = Returns m'" and "distinct (map fst m)"
  shows "distinct (map fst m') \<and>
         fst ` set m' = fst ` set m \<union> (site_name_of ` set mvs - {IGNORED_SITE}) \<and>
         (\<forall>name. site_forms m' name = site_forms m name \<union> collected_forms ns mvs name)"
  using assms
proof (induction mvs arbitrary: m)
  case Nil
  then show ?case by (simp add: collected_forms_Nil)
next
  case (Cons mv mvs)
  show ?case
  proof (cases "site_name_of mv = IGNORED_SITE")
    case True
    then have "metadata_versions_loop ns mvs m = Returns m'"
      using Cons.prems(1) by simp
    from Cons.IH[OF this Cons.prems(2)] show ?thesis
      using True by (auto simp: collected_forms_ignored)
  next
    case False
    then obtain S where S: "metadata_version_forms mv ns = Returns S"
      and rest: "metadata_versions_loop ns mvs
                   (update_site m (site_name_of mv) (element_get mv ''OID'' []) S) = Returns m'"
      using Cons.prems(1) by (auto simp: bind_Returns_iff)
    let ?m1 = "update_site m (site_name_of mv) (element_get mv ''OID'' []) S"
    have d1: "distinct (map fst ?m1)"
      by (rule update_site_distinct[OF Cons.prems(2)])
    from Cons.IH[OF rest d1] have
      d: "distinct (map fst m')"
      and k: "fst ` set m' = fst ` set ?m1 \<union> (site_name_of ` set mvs - {IGNORED_SITE})"
      and f: "\<And>name. site_forms m' name = site_forms ?m1 name \<union> collected_forms ns mvs name"
      by simp_all
    have keys: "fst ` set m' = fst ` set m \<union> (site_name_of ` set (mv # mvs) - {IGNORED_SITE})"
      unfolding k update_site_keys using False by auto
    have "site_forms m' name = site_forms m name \<union> collected_forms ns (mv # mvs) name" for name
      unfolding f site_forms_update collected_forms_Cons[OF False S] by auto
    then show ?thesis
      using d keys by simp
  qed
qed

lemma extract_metadata_versions_invariant:
  assumes "extract_metadata_versions root ns = Returns m"
    and "find_elements_once root ''MetaDataVersion'' ns = Returns mvs"
  shows "distinct (map fst m)"
    and "fst ` set m = site_name_of ` set mvs - {IGNORED_SITE}"
    and "site_forms m name = collected_forms ns mvs name"
proof -
  have "distinct (map fst m) \<and> fst ` set m = site_name_of ` set mvs - {IGNORED_SITE} \<and>
        (\<forall>name. site_forms m name = collected_forms ns mvs name)"
  proof (cases "mvs = []")
    case True
    then have "m = []"
      using assms by (simp add: extract_metadata_versions_def)
    then show ?thesis
      using True by (simp add: site_forms_Nil collected_forms_Nil)
  next
    case False
    then have "metadata_versions_loop ns mvs [] = Returns m"
      using assms by (simp add: extract_metadata_versions_def)
    from metadata_versions_loop_invariant[OF this] show ?thesis
      by (simp add: site_forms_Nil)
  qed
  then show "distinct (map fst m)" and "fst ` set m = site_name_of ` set mvs - {IGNORED_SITE}"
    and "site_forms m name = collected_forms ns mvs name"
    by simp_all
qed

lemma extract_metadata_versions_not_ignored:
  assumes "extract_metadata_versions root ns = Returns m"
  shows "IGNORED_SITE \<notin> fst ` set m"
proof -
  obtain mvs where "find_elements_once root ''MetaDataVersion'' ns = Returns mvs"
    using assms by (auto simp: extract_metadata_versions_def bind_Returns_iff)
  from extract_metadata_versions_invariant(2)[OF assms this] show ?thesis
    by simp
qed

lemma shared_name_facts:
  "find_elements_once shared_name_root ''MetaDataVersion'' default_namespaces = Returns shared_name_versions"
  "extract_metadata_versions shared_name_root default_namespaces = Returns shared_name_map"
  "metadata_version_forms (shared_name_versions ! 0) default_namespaces = Returns {''F1''}"
  "metadata_version_forms (shared_name_versions ! 1) default_namespaces = Returns {''F2'', ''F3''}"
  by code_simp+

text \<open>
  C8. The site map has one entry for each display name other than the ignored one that occurs
  on a found \<open>MetaDataVersion\<close> element, and the form set of the entry is the union of the
  form sets collected from all the elements of that name: a later element of the same name
  extends the set and never replaces it.
\<close>

theorem same_name_forms_are_merged:
  assumes "extract_metadata_versions root ns = Returns m"
    and "find_elements_once root ''MetaDataVersion'' ns = Returns mvs"
  shows "distinct (map fst m) \<and>
         fst ` set m = site_name_of ` set mvs - {IGNORED_SITE} \<and>
         (\<forall>name. (case map_of m name of None \<Rightarrow> {} | Some info \<Rightarrow> forms info)
            = \<Union> {S. \<exists>mv\<in>set mvs. site_name_of mv = name \<and> name \<noteq> IGNORED_SITE \<and>
                                    metadata_version_forms mv ns = Returns S})"
  using extract_metadata_versions_invariant[OF assms]
  by (simp add: site_forms_def collected_forms_def)

text \<open>
  \<open>shared_name_root\<close> has two metadata versions named \<open>Site A\<close>, with the forms \<open>F1\<close> and
  \<open>F2\<close>, \<open>F3\<close>: the entry of \<open>Site A\<close> holds all three.
\<close>

theorem same_name_forms_are_merged_witness:
  "map_of shared_name_map ''Site A'' = Some \<lparr>oid = ''MV1'', forms = {''F1''} \<union> {''F2'', ''F3''}\<rparr> \<and>
   site_name_of (shared_name_versions ! 0) = ''Site A'' \<and>
   site_name_of (shared_name_versions ! 1) = ''Site A'' \<and>
   fst ` set shared_name_map = site_name_of ` set shared_name_versions - {IGNORED_SITE}"
proof -
  have a: "map_of shared_name_map ''Site A'' = Some \<lparr>oid = ''MV1'', forms = {''F1''} \<union> {''F2'', ''F3''}\<rparr>"
    by (simp add: shared_name_map_def insert_commute)
  have b: "site_name_of (shared_name_versions ! 0) = ''Site A'' \<and>
           site_name_of (shared_name_versions ! 1) = ''Site A''"
    by (simp add: shared_name_versions_def site_name_of_def element_get_def)
  show ?thesis
    using same_name_forms_are_merged[OF shared_name_facts(2) shared_name_facts(1)] a b
    by blast
qed

end
